theory Spec2Isabelle
  imports Main
begin

section \<open>JavaScript values used by the components\<close>

text \<open>
  A JavaScript \<^verbatim>\<open>number\<close> as the score fields use it: \<open>NaN\<close>, or an integer-valued
  double \<open>Num n\<close>. The model is exact while \<open>\<bar>n\<bar> \<le> 2^53\<close>, which covers every score
  of a match; it does not follow the rounding of longer digit strings.
\<close>

datatype jsnum = NaN | Num int

text \<open>\<^verbatim>\<open>Number.isNaN(x)\<close>.\<close>

fun isNaN :: "jsnum \<Rightarrow> bool" where
  "isNaN NaN = True"
| "isNaN (Num n) = False"

text \<open>\<^verbatim>\<open>a > b\<close> on numbers: every comparison with \<open>NaN\<close> is false.\<close>

fun js_gt :: "jsnum \<Rightarrow> jsnum \<Rightarrow> bool" where
  "js_gt (Num a) (Num b) = (a > b)"
| "js_gt _ _ = False"

text \<open>\<^verbatim>\<open>a ?? b\<close>: the left operand unless it is \<^verbatim>\<open>null\<close> or \<^verbatim>\<open>undefined\<close> (\<open>None\<close>).\<close>

fun nullish :: "'a option \<Rightarrow> 'a \<Rightarrow> 'a" where
  "nullish (Some a) b = a"
| "nullish None b = b"

text \<open>
  \<^verbatim>\<open>a ?? b\<close> where \<open>b\<close> may itself be \<^verbatim>\<open>undefined\<close> (an optional property).
\<close>

fun nullish_opt :: "'a option \<Rightarrow> 'a option \<Rightarrow> 'a option" where
  "nullish_opt (Some a) b = Some a"
| "nullish_opt None b = b"

text \<open>Truthiness of an optional boolean flag: \<^verbatim>\<open>undefined\<close> and \<^verbatim>\<open>false\<close> are falsy.\<close>

fun truthy :: "bool option \<Rightarrow> bool" where
  "truthy (Some b) = b"
| "truthy None = False"

text \<open>
  \<^verbatim>\<open>reason || undefined\<close> on the result of \<^verbatim>\<open>window.prompt\<close> (a string, or
  \<^verbatim>\<open>null\<close> when the dialog is cancelled): \<^verbatim>\<open>null\<close> and the empty string are falsy.
\<close>

fun or_undefined :: "string option \<Rightarrow> string option" where
  "or_undefined None = None"
| "or_undefined (Some r) = (if r = [] then None else Some r)"

subsection \<open>\<^verbatim>\<open>parseInt(s, 10)\<close>\<close>

text \<open>
  ECMAScript \<^verbatim>\<open>parseInt\<close> with radix 10: leading white space is skipped, one sign is
  read, then the longest prefix of decimal digits; the result is \<open>NaN\<close> when that prefix
  is empty. Whatever follows the digits is ignored. A \<open>char\<close> stands for a code unit
  below 256, so the white space of ECMAScript is the seven characters listed.
\<close>

definition isWhiteSpace :: "char \<Rightarrow> bool" where
  "isWhiteSpace c \<longleftrightarrow>
     c \<in> set [CHR 0x09, CHR 0x0A, CHR 0x0B, CHR 0x0C, CHR 0x0D, CHR 0x20, CHR 0xA0]"

definition isDigit :: "char \<Rightarrow> bool" where
  "isDigit c \<longleftrightarrow> c \<in> set ''0123456789''"

definition digitValue :: "char \<Rightarrow> int" where
  "digitValue c = int (of_char c) - 48"

definition digitsValue :: "string \<Rightarrow> int" where
  "digitsValue ds = foldl (\<lambda>a c. 10 * a + digitValue c) 0 ds"

definition parseInt :: "string \<Rightarrow> jsnum" where
  "parseInt inputString =
     (let S = dropWhile isWhiteSpace inputString;
          sign = (case S of c # r \<Rightarrow> if c = CHR ''-'' then - 1 else 1 | [] \<Rightarrow> 1);
          S' = (case S of c # r \<Rightarrow> if c = CHR ''+'' \<or> c = CHR ''-'' then r else S | [] \<Rightarrow> S);
          Z = takeWhile isDigit S'
      in if Z = [] then NaN else Num (sign * digitsValue Z))"

section \<open>MatchCard (src/components/MatchCard.tsx)\<close>

text \<open>
  Modelled from the spec: the type \<^verbatim>\<open>Match['status']\<close> is declared in
  \<^verbatim>\<open>types.ts\<close>, which is not among the sources. Its five values are the ones the
  spec lists and the ones the component's \<^verbatim>\<open>switch\<close> statements name.
\<close>

datatype match_status = pending | in_progress | pending_confirmation | completed | disputed

record team_display =
  team_id :: string
  team_name :: string
  players :: "string list"

text \<open>
  \<^verbatim>\<open>interface MatchDisplay\<close>. The field \<^verbatim>\<open>id\<close> is \<open>match_id\<close> here (\<open>id\<close> is the
  identity function of HOL). \<^verbatim>\<open>number | null\<close> is \<open>jsnum option\<close>, an optional
  flag is \<open>bool option\<close>.
\<close>

record MatchDisplay =
  match_id :: string
  team1 :: team_display
  team2 :: team_display
  score1 :: "jsnum option"
  score2 :: "jsnum option"
  status :: match_status
  roundNumber :: int
  court :: "string option"
  isWaitingOnYou :: "bool option"
  canCurrentUserConfirm :: "bool option"
  canCurrentUserStart :: "bool option"

text \<open>
  \<^verbatim>\<open>interface MatchCardProps\<close>. The callback \<^verbatim>\<open>onUpdateScore\<close> is always supplied;
  \<open>has_onStartMatch\<close> says whether the optional \<^verbatim>\<open>onStartMatch\<close> is. The two optional
  flags of the props carry the prefix \<open>props_\<close>, since \<open>MatchDisplay\<close> has fields of the
  same names.
\<close>

record MatchCardProps =
  match :: MatchDisplay
  matchNumber :: int
  isVerified :: bool
  has_onStartMatch :: bool
  props_isWaitingOnYou :: "bool option"
  props_canCurrentUserConfirm :: "bool option"

text \<open>
  One rendering of the component: its props, the \<^verbatim>\<open>isOrganizer\<close> flag read from
  \<^verbatim>\<open>useAuth()\<close>, and the two pieces of state \<^verbatim>\<open>s1\<close>, \<^verbatim>\<open>s2\<close> (the texts of the
  score inputs).
\<close>

record MatchCard =
  props :: MatchCardProps
  isOrganizer :: bool
  s1 :: string
  s2 :: string

text \<open>The calls the component makes on the callbacks of its props.\<close>

datatype action = Submit | Confirm | Dispute

datatype callback =
  onUpdateScore string jsnum jsnum action "string option"
| onStartMatch string

definition waitingOnYou :: "MatchCard \<Rightarrow> bool option" where
  "waitingOnYou c = nullish_opt (props_isWaitingOnYou (props c)) (isWaitingOnYou (match (props c)))"

definition canConfirm :: "MatchCard \<Rightarrow> bool option" where
  "canConfirm c =
     nullish_opt (props_canCurrentUserConfirm (props c)) (canCurrentUserConfirm (match (props c)))"

definition canStart :: "MatchCard \<Rightarrow> bool option" where
  "canStart c = canCurrentUserStart (match (props c))"

definition parsedS1 :: "MatchCard \<Rightarrow> jsnum" where
  "parsedS1 c = (if s1 c = [] then NaN else parseInt (s1 c))"

definition parsedS2 :: "MatchCard \<Rightarrow> jsnum" where
  "parsedS2 c = (if s2 c = [] then NaN else parseInt (s2 c))"

definition scoresFilled :: "MatchCard \<Rightarrow> bool" where
  "scoresFilled c \<longleftrightarrow> \<not> isNaN (parsedS1 c) \<and> \<not> isNaN (parsedS2 c)"

definition canSubmit :: "MatchCard \<Rightarrow> bool" where
  "canSubmit c \<longleftrightarrow>
     scoresFilled c \<and>
     status (match (props c)) \<noteq> completed \<and>
     status (match (props c)) \<noteq> disputed \<and>
     status (match (props c)) \<noteq> pending_confirmation"

definition canResolveSubmit :: "MatchCard \<Rightarrow> bool" where
  "canResolveSubmit c \<longleftrightarrow>
     scoresFilled c \<and> status (match (props c)) = disputed \<and> isOrganizer c"

definition hasScore :: "MatchCard \<Rightarrow> bool" where
  "hasScore c \<longleftrightarrow> score1 (match (props c)) \<noteq> None \<and> score2 (match (props c)) \<noteq> None"

definition team1IsWinner :: "MatchCard \<Rightarrow> bool" where
  "team1IsWinner c \<longleftrightarrow>
     hasScore c \<and>
     js_gt (nullish (score1 (match (props c))) (Num 0)) (nullish (score2 (match (props c))) (Num 0))"

definition team2IsWinner :: "MatchCard \<Rightarrow> bool" where
  "team2IsWinner c \<longleftrightarrow>
     hasScore c \<and>
     js_gt (nullish (score2 (match (props c))) (Num 0)) (nullish (score1 (match (props c))) (Num 0))"

subsection \<open>Click handlers\<close>

text \<open>
  A handler returns the call it makes on a callback, or \<open>None\<close> when it returns early.
\<close>

definition handleSubmitClick :: "MatchCard \<Rightarrow> callback option" where
  "handleSubmitClick c =
     (if \<not> canSubmit c then None
      else Some (onUpdateScore (match_id (match (props c))) (parsedS1 c) (parsedS2 c) Submit None))"

definition handleResolveClick :: "MatchCard \<Rightarrow> callback option" where
  "handleResolveClick c =
     (if \<not> canResolveSubmit c then None
      else Some (onUpdateScore (match_id (match (props c))) (parsedS1 c) (parsedS2 c) Submit None))"

definition handleConfirmClick :: "MatchCard \<Rightarrow> callback option" where
  "handleConfirmClick c =
     (if \<not> hasScore c then None
      else Some (onUpdateScore (match_id (match (props c)))
                   (nullish (score1 (match (props c))) (Num 0))
                   (nullish (score2 (match (props c))) (Num 0))
                   Confirm None))"

text \<open>
  \<open>promptResult\<close> is what \<^verbatim>\<open>window.prompt\<close> returns: the text typed, or \<open>None\<close>
  (\<^verbatim>\<open>null\<close>) when the dialog is cancelled.
\<close>

definition handleDisputeClick :: "MatchCard \<Rightarrow> string option \<Rightarrow> callback option" where
  "handleDisputeClick c promptResult =
     (if \<not> hasScore c then None
      else Some (onUpdateScore (match_id (match (props c)))
                   (nullish (score1 (match (props c))) (Num 0))
                   (nullish (score2 (match (props c))) (Num 0))
                   Dispute (or_undefined promptResult)))"

definition handleStartClick :: "MatchCard \<Rightarrow> callback option" where
  "handleStartClick c =
     (if \<not> has_onStartMatch (props c) \<or> \<not> truthy (canStart c) then None
      else Some (onStartMatch (match_id (match (props c)))))"

subsection \<open>The buttons of the rendered card\<close>

datatype button = StartButton | SubmitButton | ConfirmButton | DisputeButton | ResolveButton

text \<open>Which buttons the JSX renders.\<close>

fun rendered :: "MatchCard \<Rightarrow> button \<Rightarrow> bool" where
  "rendered c StartButton \<longleftrightarrow>
     status (match (props c)) = pending \<and> truthy (canStart c) \<and> has_onStartMatch (props c)"
| "rendered c SubmitButton \<longleftrightarrow>
     status (match (props c)) = pending \<or> status (match (props c)) = in_progress"
| "rendered c ConfirmButton \<longleftrightarrow>
     status (match (props c)) = pending_confirmation \<and> hasScore c \<and> truthy (canConfirm c)"
| "rendered c DisputeButton \<longleftrightarrow>
     status (match (props c)) = pending_confirmation \<and> hasScore c \<and> truthy (canConfirm c)"
| "rendered c ResolveButton \<longleftrightarrow>
     status (match (props c)) = disputed \<and> isOrganizer c"

text \<open>The \<^verbatim>\<open>disabled\<close> attribute of a button.\<close>

fun disabled :: "MatchCard \<Rightarrow> button \<Rightarrow> bool" where
  "disabled c SubmitButton \<longleftrightarrow> \<not> canSubmit c"
| "disabled c ResolveButton \<longleftrightarrow> \<not> canResolveSubmit c"
| "disabled c _ \<longleftrightarrow> False"

text \<open>The \<^verbatim>\<open>onClick\<close> handler of a button.\<close>

fun onClick :: "MatchCard \<Rightarrow> string option \<Rightarrow> button \<Rightarrow> callback option" where
  "onClick c promptResult StartButton = handleStartClick c"
| "onClick c promptResult SubmitButton = handleSubmitClick c"
| "onClick c promptResult ConfirmButton = handleConfirmClick c"
| "onClick c promptResult DisputeButton = handleDisputeClick c promptResult"
| "onClick c promptResult ResolveButton = handleResolveClick c"

text \<open>
  A user's click on a button: only a button that is rendered and not disabled runs its
  handler.
\<close>

definition click :: "MatchCard \<Rightarrow> string option \<Rightarrow> button \<Rightarrow> callback option" where
  "click c promptResult b =
     (if rendered c b \<and> \<not> disabled c b then onClick c promptResult b else None)"

subsection \<open>Example cards\<close>

text \<open>Concrete matches and cards, used to evaluate the component on explicit inputs.\<close>

definition demo_team :: "string \<Rightarrow> team_display" where
  "demo_team n = \<lparr>team_id = n, team_name = n, players = []\<rparr>"

definition demo_match :: "match_status \<Rightarrow> jsnum option \<Rightarrow> jsnum option \<Rightarrow> MatchDisplay" where
  "demo_match st a b =
     \<lparr>match_id = ''m1'', team1 = demo_team ''t1'', team2 = demo_team ''t2'',
      score1 = a, score2 = b, status = st, roundNumber = 1, court = None,
      isWaitingOnYou = None, canCurrentUserConfirm = None, canCurrentUserStart = None\<rparr>"

definition demo_card :: "MatchDisplay \<Rightarrow> bool \<Rightarrow> string \<Rightarrow> string \<Rightarrow> MatchCard" where
  "demo_card m org t1 t2 =
     \<lparr>props = \<lparr>match = m, matchNumber = 1, isVerified = False, has_onStartMatch = False,
               props_isWaitingOnYou = None, props_canCurrentUserConfirm = None\<rparr>,
      isOrganizer = org, s1 = t1, s2 = t2\<rparr>"

section \<open>CourtAllocation (src/components/CourtAllocation.tsx)\<close>

text \<open>
  \<^verbatim>\<open>type MatchStatus\<close> and \<^verbatim>\<open>type CourtStatus\<close>. Both have a value
  \<^verbatim>\<open>"ASSIGNED"\<close>; the one of \<open>MatchStatus\<close> is \<open>MATCH_ASSIGNED\<close> here.
\<close>

datatype MatchStatus = WAITING | MATCH_ASSIGNED | IN_PROGRESS | COMPLETED

datatype CourtStatus = AVAILABLE | ASSIGNED | IN_USE | OUT_OF_SERVICE

text \<open>\<^verbatim>\<open>interface Court\<close>; \<^verbatim>\<open>id\<close>, \<^verbatim>\<open>name\<close> and \<^verbatim>\<open>status\<close> carry the prefix \<open>court_\<close>.\<close>

record Court =
  court_id :: string
  court_name :: string
  court_status :: CourtStatus
  currentMatchId :: "string option"

text \<open>\<^verbatim>\<open>interface CourtMatch\<close>; \<^verbatim>\<open>id\<close>, \<^verbatim>\<open>status\<close> and \<^verbatim>\<open>courtId\<close> carry the prefix \<open>cm_\<close>.\<close>

record CourtMatch =
  cm_id :: string
  division :: string
  roundLabel :: string
  matchLabel :: string
  teamAName :: string
  teamBName :: string
  cm_status :: MatchStatus
  cm_courtId :: "string option"

text \<open>The calls the component makes on the three callbacks of its props.\<close>

datatype court_callback =
  onAssignMatchToCourt string string
| onStartMatchOnCourt string
| onFinishMatchOnCourt string

definition waitingMatches :: "CourtMatch list \<Rightarrow> CourtMatch list" where
  "waitingMatches matches = filter (\<lambda>m. cm_status m = WAITING) matches"

definition getMatchForCourt :: "CourtMatch list \<Rightarrow> Court \<Rightarrow> CourtMatch option" where
  "getMatchForCourt matches c = find (\<lambda>m. Some (cm_id m) = currentMatchId c) matches"

text \<open>
  The buttons under "Assign to court" of one waiting match, each given as the call its
  \<^verbatim>\<open>onClick\<close> makes: one button for every court that passes the filter.
\<close>

definition assignButtons :: "Court list \<Rightarrow> CourtMatch \<Rightarrow> court_callback list" where
  "assignButtons courts m =
     map (\<lambda>c. onAssignMatchToCourt (cm_id m) (court_id c))
       (filter (\<lambda>c. court_status c = AVAILABLE) courts)"

text \<open>The "Waiting Matches" column: the assign buttons of every waiting match.\<close>

definition waitingPanel :: "Court list \<Rightarrow> CourtMatch list \<Rightarrow> court_callback list" where
  "waitingPanel courts matches = concat (map (assignButtons courts) (waitingMatches matches))"

text \<open>The buttons in the card of one court.\<close>

definition courtButtons :: "Court \<Rightarrow> court_callback list" where
  "courtButtons c =
     (if court_status c = ASSIGNED then [onStartMatchOnCourt (court_id c)] else []) @
     (if court_status c = IN_USE then [onFinishMatchOnCourt (court_id c)] else [])"

definition courtsPanel :: "Court list \<Rightarrow> court_callback list" where
  "courtsPanel courts = concat (map courtButtons courts)"

text \<open>
  Every button of the rendered component, as the call a click on it makes. The component
  makes no other call on its callbacks.
\<close>

definition CourtAllocation :: "Court list \<Rightarrow> CourtMatch list \<Rightarrow> court_callback list" where
  "CourtAllocation courts matches = waitingPanel courts matches @ courtsPanel courts"

subsection \<open>Example courts and matches\<close>

definition demo_court :: "string \<Rightarrow> CourtStatus \<Rightarrow> string option \<Rightarrow> Court" where
  "demo_court n st m = \<lparr>court_id = n, court_name = n, court_status = st, currentMatchId = m\<rparr>"

definition demo_court_match :: "string \<Rightarrow> MatchStatus \<Rightarrow> string option \<Rightarrow> CourtMatch" where
  "demo_court_match n st c =
     \<lparr>cm_id = n, division = ''Open'', roundLabel = ''Round 1'', matchLabel = ''Match 1'',
      teamAName = ''A'', teamBName = ''B'', cm_status = st, cm_courtId = c\<rparr>"

section \<open>Court documents (src/services/firebase.ts)\<close>

text \<open>
  A Firestore document is a finite map from field names to values, a collection a map
  from document ids to documents.
\<close>

datatype field_value = FString string | FNumber int

type_synonym document = "string \<rightharpoonup> field_value"

type_synonym collection = "string \<rightharpoonup> document"

datatype firestore_error = not_found

text \<open>
  \<^verbatim>\<open>updateDoc(doc(db, coll, docId), data)\<close>: fails when the document does not exist,
  and otherwise overwrites the fields that \<open>data\<close> names and keeps the others. It reads
  no field of the stored document.
\<close>

definition updateDoc :: "collection \<Rightarrow> string \<Rightarrow> document \<Rightarrow> firestore_error + collection" where
  "updateDoc coll docId data =
     (case coll docId of
        None \<Rightarrow> Inl not_found
      | Some d \<Rightarrow> Inr (coll(docId \<mapsto> d ++ data)))"

text \<open>
  \<^verbatim>\<open>updateCourt(courtId, data)\<close>; \<open>now\<close> is the value of \<^verbatim>\<open>Date.now()\<close> and
  \<open>courts\<close> the collection \<^verbatim>\<open>'courts'\<close>.
\<close>

definition updateCourt :: "int \<Rightarrow> collection \<Rightarrow> string \<Rightarrow> document \<Rightarrow> firestore_error + collection" where
  "updateCourt now courts courtId data =
     updateDoc courts courtId (data(''updatedAt'' \<mapsto> FNumber now))"

text \<open>The write that binds a court to a match, as a \<^verbatim>\<open>Partial<Court>\<close>.\<close>

definition assignData :: "string \<Rightarrow> document" where
  "assignData matchId =
     [''status'' \<mapsto> FString ''ASSIGNED'', ''currentMatchId'' \<mapsto> FString matchId]"

text \<open>
  Two \<open>updateCourt\<close> calls on one court, committed one after the other (Firestore
  applies the writes to one document one at a time): the results of the first and of the
  second call. A failed write leaves the collection as it was.
\<close>

definition two_updates ::
  "collection \<Rightarrow> string \<Rightarrow> int \<Rightarrow> document \<Rightarrow> int \<Rightarrow> document \<Rightarrow>
   (firestore_error + collection) \<times> (firestore_error + collection)" where
  "two_updates courts courtId now1 data1 now2 data2 =
     (let r1 = updateCourt now1 courts courtId data1;
          r2 = updateCourt now2 (case r1 of Inl e \<Rightarrow> courts | Inr c \<Rightarrow> c) courtId data2
      in (r1, r2))"

fun succeeded :: "'e + 'a \<Rightarrow> bool" where
  "succeeded (Inr x) = True"
| "succeeded (Inl e) = False"

text \<open>
  A field of a document of the collection that a write returned; \<open>None\<close> when the write
  failed, or the document or the field is absent.
\<close>

definition field_after :: "firestore_error + collection \<Rightarrow> string \<Rightarrow> string \<Rightarrow> field_value option" where
  "field_after r docId f =
     (case r of
        Inl e \<Rightarrow> None
      | Inr coll \<Rightarrow> (case coll docId of None \<Rightarrow> None | Some d \<Rightarrow> d f))"

definition demo_courts :: collection where
  "demo_courts =
     [''courtA'' \<mapsto> [''id'' \<mapsto> FString ''courtA'', ''status'' \<mapsto> FString ''AVAILABLE'']]"

section \<open>MatchLifecycle and CourtAllocator: the operations behind the callbacks\<close>

text \<open>
  Modelled from the spec: the error kinds of section 7. The code that reports them (the
  handlers that the parent component wires to \<^verbatim>\<open>onUpdateScore\<close> and
  \<^verbatim>\<open>onFinishMatchOnCourt\<close>) is not among the sources.
\<close>

datatype error =
  InvalidTransition | Unauthorized | InvalidInput | ResourceConflict | ResourceUnavailable

text \<open>
  Modelled from the spec: the Match entity of section 3, with the fields that the
  lifecycle operations read or write (\<open>id\<close>, \<open>status\<close>, \<open>score1\<close>, \<open>score2\<close> and
  \<open>courtId\<close> carry the prefix \<open>m_\<close>). The stored entity is declared in
  \<^verbatim>\<open>types.ts\<close>, which is not among the sources.
\<close>

record Match =
  m_id :: string
  m_status :: match_status
  m_score1 :: "int option"
  m_score2 :: "int option"
  m_courtId :: "string option"
  submittedBy :: "string option"
  disputeReason :: "string option"

text \<open>
  Modelled from the spec: the acting user, with the answers of the authorization
  collaborator of section 6 for the match at hand (\<open>isParticipant(actorId, match)\<close> and
  \<open>isOrganizer(actorId)\<close>).
\<close>

record actor =
  actorId :: string
  participant :: bool
  organizer :: bool

text \<open>
  Modelled from the spec: who may confirm or dispute a submitted score (sections 4.1 and
  8). The actor is a participant or an organizer, and is not the one who submitted the
  score: "\<open>confirmScore\<close> and \<open>disputeScore\<close> always fail when \<open>actor == submittedBy\<close>".
\<close>

definition may_ratify :: "Match \<Rightarrow> actor \<Rightarrow> bool" where
  "may_ratify m a \<longleftrightarrow> submittedBy m \<noteq> Some (actorId a) \<and> (participant a \<or> organizer a)"

text \<open>
  Modelled from the spec: \<open>confirmScore(match, actor)\<close> of section 4.1, valid only from
  \<open>pending_confirmation\<close>; it transitions to \<open>completed\<close>.
\<close>

definition confirmScore :: "Match \<Rightarrow> actor \<Rightarrow> error + Match" where
  "confirmScore m a =
     (if m_status m \<noteq> pending_confirmation then Inl InvalidTransition
      else if \<not> may_ratify m a then Inl Unauthorized
      else Inr (m\<lparr>m_status := completed\<rparr>))"

text \<open>
  Modelled from the spec: \<open>disputeScore(match, actor, reason?)\<close> of section 4.1, valid only
  from \<open>pending_confirmation\<close>; it sets \<open>disputeReason\<close>, transitions to \<open>disputed\<close> and
  keeps the submitted score.
\<close>

definition disputeScore :: "Match \<Rightarrow> actor \<Rightarrow> string option \<Rightarrow> error + Match" where
  "disputeScore m a reason =
     (if m_status m \<noteq> pending_confirmation then Inl InvalidTransition
      else if \<not> may_ratify m a then Inl Unauthorized
      else Inr (m\<lparr>m_status := disputed, disputeReason := reason\<rparr>))"

text \<open>
  Modelled from the spec: the per-user flag \<open>canCurrentUserConfirm\<close> that the parent
  component sets on a \<open>MatchDisplay\<close>: by section 9 a read-side projection over
  \<open>status\<close>, \<open>submittedBy\<close> and the caller's identity. The parent component is not among
  the sources.
\<close>

definition canCurrentUserConfirm_for :: "Match \<Rightarrow> actor \<Rightarrow> bool" where
  "canCurrentUserConfirm_for m a \<longleftrightarrow> m_status m = pending_confirmation \<and> may_ratify m a"


text \<open>
  Modelled from the spec: \<open>finishOnCourt(court)\<close> of section 4.2, given the court and the
  match bound to it. It is valid only if the court is \<open>IN_USE\<close> and the bound match has
  reached \<open>completed\<close>; it clears \<open>court.currentMatchId\<close>, sets the court \<open>AVAILABLE\<close> and
  clears \<open>match.courtId\<close>.
\<close>

definition finishOnCourt :: "Court \<Rightarrow> Match \<Rightarrow> error + Match \<times> Court" where
  "finishOnCourt c m =
     (if court_status c \<noteq> IN_USE then Inl InvalidTransition
      else if currentMatchId c \<noteq> Some (m_id m) then Inl ResourceUnavailable
      else if m_status m \<noteq> completed then Inl InvalidTransition
      else Inr (m\<lparr>m_courtId := None\<rparr>, c\<lparr>court_status := AVAILABLE, currentMatchId := None\<rparr>))"

text \<open>
  Modelled from the spec: the entities after an operation (section 7): a failed operation
  leaves all entities exactly as they were before the call.
\<close>

fun entities_after :: "'s \<Rightarrow> error + 's \<Rightarrow> 's" where
  "entities_after before (Inl e) = before"
| "entities_after before (Inr s) = s"

definition demo_Match :: "match_status \<Rightarrow> string option \<Rightarrow> Match" where
  "demo_Match st by =
     \<lparr>m_id = ''m1'', m_status = st, m_score1 = Some 11, m_score2 = Some 9,
      m_courtId = Some ''courtA'', submittedBy = by, disputeReason = None\<rparr>"

definition demo_actor :: "string \<Rightarrow> bool \<Rightarrow> bool \<Rightarrow> actor" where
  "demo_actor n p org = \<lparr>actorId = n, participant = p, organizer = org\<rparr>"

section \<open>Properties of MatchCard\<close>

lemmas parse_defs = parseInt_def isWhiteSpace_def isDigit_def digitValue_def digitsValue_def

lemmas gate_defs =
  parsedS1_def parsedS2_def scoresFilled_def canSubmit_def canResolveSubmit_def

lemmas click_defs = click_def handleSubmitClick_def handleResolveClick_def

lemmas demo_defs = demo_team_def demo_match_def demo_card_def

lemma js_gt_asym: "js_gt a b \<Longrightarrow> \<not> js_gt b a"
  by (cases a; cases b) auto

lemma js_gt_irrefl: "\<not> js_gt a a"
  by (cases a) auto

text \<open>
  C10. For every displayed match, \<open>team1IsWinner\<close> and \<open>team2IsWinner\<close> are never both
  true. A team is marked winner exactly when both scores are present and its score is
  strictly greater than the opponent's; equal scores and absent scores mark neither
  team.
\<close>

theorem C10_winner_exclusive:
  "\<not> (team1IsWinner c \<and> team2IsWinner c) \<and>
   (team1IsWinner c \<longleftrightarrow>
      (\<exists>a b. score1 (match (props c)) = Some a \<and> score2 (match (props c)) = Some b \<and> js_gt a b)) \<and>
   (team2IsWinner c \<longleftrightarrow>
      (\<exists>a b. score1 (match (props c)) = Some a \<and> score2 (match (props c)) = Some b \<and> js_gt b a)) \<and>
   (score1 (match (props c)) = score2 (match (props c)) \<longrightarrow>
      \<not> team1IsWinner c \<and> \<not> team2IsWinner c) \<and>
   (score1 (match (props c)) = None \<or> score2 (match (props c)) = None \<longrightarrow>
      \<not> team1IsWinner c \<and> \<not> team2IsWinner c)"
proof -
  have ex: "\<not> (team1IsWinner c \<and> team2IsWinner c)"
    using js_gt_asym by (auto simp: team1IsWinner_def team2IsWinner_def)
  have w1: "team1IsWinner c \<longleftrightarrow>
      (\<exists>a b. score1 (match (props c)) = Some a \<and> score2 (match (props c)) = Some b \<and> js_gt a b)"
    by (auto simp: team1IsWinner_def hasScore_def)
  have w2: "team2IsWinner c \<longleftrightarrow>
      (\<exists>a b. score1 (match (props c)) = Some a \<and> score2 (match (props c)) = Some b \<and> js_gt b a)"
    by (auto simp: team2IsWinner_def hasScore_def)
  have eq: "score1 (match (props c)) = score2 (match (props c)) \<longrightarrow>
      \<not> team1IsWinner c \<and> \<not> team2IsWinner c"
    unfolding w1 w2 using js_gt_irrefl by auto
  have ab: "score1 (match (props c)) = None \<or> score2 (match (props c)) = None \<longrightarrow>
      \<not> team1IsWinner c \<and> \<not> team2IsWinner c"
    unfolding w1 w2 by auto
  from ex w1 w2 eq ab show ?thesis by blast
qed

theorem C10_winner_exclusive_witness:
  "team1IsWinner (demo_card (demo_match completed (Some (Num 11)) (Some (Num 9))) False [] []) \<and>
   \<not> team2IsWinner (demo_card (demo_match completed (Some (Num 11)) (Some (Num 9))) False [] []) \<and>
   \<not> team1IsWinner (demo_card (demo_match completed (Some (Num 7)) (Some (Num 7))) False [] []) \<and>
   \<not> team2IsWinner (demo_card (demo_match completed (Some (Num 7)) (Some (Num 7))) False [] []) \<and>
   \<not> team1IsWinner (demo_card (demo_match pending None None) False [] []) \<and>
   \<not> team2IsWinner (demo_card (demo_match pending None None) False [] [])"
  using C10_winner_exclusive [of "demo_card (demo_match completed (Some (Num 11)) (Some (Num 9))) False [] []"]
        C10_winner_exclusive [of "demo_card (demo_match completed (Some (Num 7)) (Some (Num 7))) False [] []"]
        C10_winner_exclusive [of "demo_card (demo_match pending None None) False [] []"]
  by (simp add: demo_defs)

lemma status_cases:
  "st \<noteq> completed \<and> st \<noteq> disputed \<and> st \<noteq> pending_confirmation \<longleftrightarrow> st = pending \<or> st = in_progress"
  by (cases st) simp_all

lemma canSubmit_iff:
  "canSubmit c \<longleftrightarrow>
     scoresFilled c \<and> (status (match (props c)) = pending \<or> status (match (props c)) = in_progress)"
  unfolding canSubmit_def using status_cases [of "status (match (props c))"] by blast

lemma submit_enabled_iff:
  "rendered c SubmitButton \<and> \<not> disabled c SubmitButton \<longleftrightarrow> canSubmit c"
  by (auto simp: canSubmit_iff)

lemma handleSubmitClick_iff: "handleSubmitClick c \<noteq> None \<longleftrightarrow> canSubmit c"
  by (simp add: handleSubmitClick_def)

lemma click_submit_iff: "click c r SubmitButton \<noteq> None \<longleftrightarrow> canSubmit c"
  by (auto simp: click_def handleSubmitClick_def canSubmit_iff)

lemma click_Submit_action:
  assumes "click c r b = Some (onUpdateScore i a a' Submit rs)"
  shows "(b = SubmitButton \<and> canSubmit c) \<or> (b = ResolveButton \<and> canResolveSubmit c)"
  using assms
  by (cases b) (auto simp: click_def handleSubmitClick_def handleResolveClick_def
      handleConfirmClick_def handleDisputeClick_def handleStartClick_def split: if_splits)

text \<open>
  C6. \<open>submitScore\<close> is valid from \<open>pending\<close> or \<open>in_progress\<close> only. The gate
  \<open>canSubmit\<close>, the enabled submit button, a click on it and the handler
  \<open>handleSubmitClick\<close> all act exactly when both score inputs are filled and the status
  is \<open>pending\<close> or \<open>in_progress\<close>; nothing is submitted from \<open>pending_confirmation\<close>,
  \<open>completed\<close> or \<open>disputed\<close>, and for a user who is not an organizer no button of the card
  makes a \<open>Submit\<close> call from any other status.
\<close>

theorem C6_submit_gate:
  "(canSubmit c \<longleftrightarrow>
      scoresFilled c \<and>
      (status (match (props c)) = pending \<or> status (match (props c)) = in_progress)) \<and>
   (rendered c SubmitButton \<and> \<not> disabled c SubmitButton \<longleftrightarrow>
      scoresFilled c \<and>
      (status (match (props c)) = pending \<or> status (match (props c)) = in_progress)) \<and>
   (click c r SubmitButton \<noteq> None \<longleftrightarrow>
      scoresFilled c \<and>
      (status (match (props c)) = pending \<or> status (match (props c)) = in_progress)) \<and>
   (handleSubmitClick c \<noteq> None \<longleftrightarrow>
      scoresFilled c \<and>
      (status (match (props c)) = pending \<or> status (match (props c)) = in_progress)) \<and>
   (status (match (props c)) = pending_confirmation \<or> status (match (props c)) = completed \<or>
    status (match (props c)) = disputed \<longrightarrow>
      \<not> canSubmit c \<and> handleSubmitClick c = None \<and> click c r SubmitButton = None) \<and>
   (\<not> isOrganizer c \<longrightarrow>
      (\<forall>b i a a' rs. click c r b = Some (onUpdateScore i a a' Submit rs) \<longrightarrow>
         status (match (props c)) = pending \<or> status (match (props c)) = in_progress))"
proof -
  let ?ok = "scoresFilled c \<and>
      (status (match (props c)) = pending \<or> status (match (props c)) = in_progress)"
  have g: "canSubmit c \<longleftrightarrow> ?ok" by (rule canSubmit_iff)
  have e: "rendered c SubmitButton \<and> \<not> disabled c SubmitButton \<longleftrightarrow> ?ok"
    using submit_enabled_iff g by blast
  have k: "click c r SubmitButton \<noteq> None \<longleftrightarrow> ?ok"
    using click_submit_iff g by blast
  have h: "handleSubmitClick c \<noteq> None \<longleftrightarrow> ?ok"
    using handleSubmitClick_iff g by blast
  have n: "status (match (props c)) = pending_confirmation \<or> status (match (props c)) = completed \<or>
    status (match (props c)) = disputed \<longrightarrow>
      \<not> canSubmit c \<and> handleSubmitClick c = None \<and> click c r SubmitButton = None"
    using g k h by auto
  have o: "\<not> isOrganizer c \<longrightarrow>
      (\<forall>b i a a' rs. click c r b = Some (onUpdateScore i a a' Submit rs) \<longrightarrow>
         status (match (props c)) = pending \<or> status (match (props c)) = in_progress)"
  proof (intro impI allI)
    fix b i a a' rs
    assume no: "\<not> isOrganizer c" and ck: "click c r b = Some (onUpdateScore i a a' Submit rs)"
    from click_Submit_action [OF ck] no have "canSubmit c"
      by (auto simp: canResolveSubmit_def)
    with g show "status (match (props c)) = pending \<or> status (match (props c)) = in_progress"
      by blast
  qed
  from g e k h n o show ?thesis by blast
qed

theorem C6_submit_gate_witness:
  "click (demo_card (demo_match pending None None) False ''11'' ''9'') None SubmitButton
     = Some (onUpdateScore ''m1'' (Num 11) (Num 9) Submit None) \<and>
   canSubmit (demo_card (demo_match in_progress None None) False ''11'' ''9'') \<and>
   \<not> canSubmit (demo_card (demo_match pending None None) False ''11'' []) \<and>
   click (demo_card (demo_match completed (Some (Num 11)) (Some (Num 9))) False ''11'' ''9'') None SubmitButton = None \<and>
   click (demo_card (demo_match disputed (Some (Num 11)) (Some (Num 9))) False ''11'' ''9'') None SubmitButton = None"
  using C6_submit_gate [of "demo_card (demo_match pending None None) False ''11'' ''9''" None]
    C6_submit_gate [of "demo_card (demo_match in_progress None None) False ''11'' ''9''" None]
    C6_submit_gate [of "demo_card (demo_match pending None None) False ''11'' []" None]
    C6_submit_gate [of "demo_card (demo_match completed (Some (Num 11)) (Some (Num 9))) False ''11'' ''9''" None]
    C6_submit_gate [of "demo_card (demo_match disputed (Some (Num 11)) (Some (Num 9))) False ''11'' ''9''" None]
  by (simp add: demo_defs gate_defs click_defs parse_defs)

lemma isNaN_iff: "\<not> isNaN x \<longleftrightarrow> (\<exists>n. x = Num n)"
  by (cases x) simp_all

lemma scoresFilled_iff: "scoresFilled c \<longleftrightarrow> (\<exists>a b. parsedS1 c = Num a \<and> parsedS2 c = Num b)"
  by (auto simp: scoresFilled_def isNaN_iff)

lemma click_resolve:
  "click c r ResolveButton =
     (if canResolveSubmit c
      then Some (onUpdateScore (match_id (match (props c))) (parsedS1 c) (parsedS2 c) Submit None)
      else None)"
  by (auto simp: click_def handleResolveClick_def canResolveSubmit_def)

lemma click_submit:
  "click c r SubmitButton =
     (if canSubmit c
      then Some (onUpdateScore (match_id (match (props c))) (parsedS1 c) (parsedS2 c) Submit None)
      else None)"
  by (auto simp: click_def handleSubmitClick_def canSubmit_iff)




text \<open>
  C8. \<open>disputeScore\<close> leaves the submitted score unchanged. For every match with both
  scores present, the dispute action passes the match's own \<open>score1\<close> and \<open>score2\<close>
  through unmodified; next to the call of the confirm action only the action tag differs
  and the reason is added.
\<close>

theorem C8_dispute_keeps_score:
  assumes "score1 (match (props c)) = Some a" and "score2 (match (props c)) = Some b"
  shows "handleDisputeClick c r =
           Some (onUpdateScore (match_id (match (props c))) a b Dispute (or_undefined r)) \<and>
         (rendered c DisputeButton \<longrightarrow>
            click c r DisputeButton =
              Some (onUpdateScore (match_id (match (props c))) a b Dispute (or_undefined r))) \<and>
         handleConfirmClick c =
           Some (onUpdateScore (match_id (match (props c))) a b Confirm None)"
  using assms by (simp add: handleDisputeClick_def handleConfirmClick_def hasScore_def click_def)

theorem C8_dispute_keeps_score_witness:
  "click (demo_card ((demo_match pending_confirmation (Some (Num 11)) (Some (Num 9)))
            \<lparr>canCurrentUserConfirm := Some True\<rparr>) False ''11'' ''9'')
      (Some ''wrong side'') DisputeButton
     = Some (onUpdateScore ''m1'' (Num 11) (Num 9) Dispute (Some ''wrong side'')) \<and>
   handleDisputeClick (demo_card (demo_match pending_confirmation (Some (Num 11)) (Some (Num 9))) False [] [])
      None
     = Some (onUpdateScore ''m1'' (Num 11) (Num 9) Dispute None)"
proof -
  let ?c = "demo_card ((demo_match pending_confirmation (Some (Num 11)) (Some (Num 9)))
            \<lparr>canCurrentUserConfirm := Some True\<rparr>) False ''11'' ''9''"
  let ?d = "demo_card (demo_match pending_confirmation (Some (Num 11)) (Some (Num 9))) False [] []"
  have c1: "score1 (match (props ?c)) = Some (Num 11)" and c2: "score2 (match (props ?c)) = Some (Num 9)"
    by (simp_all add: demo_defs)
  have d1: "score1 (match (props ?d)) = Some (Num 11)" and d2: "score2 (match (props ?d)) = Some (Num 9)"
    by (simp_all add: demo_defs)
  have rc: "rendered ?c DisputeButton"
    by (simp add: demo_defs hasScore_def canConfirm_def)
  from C8_dispute_keeps_score [OF c1 c2, of "Some ''wrong side''"] rc
  have x: "click ?c (Some ''wrong side'') DisputeButton
     = Some (onUpdateScore ''m1'' (Num 11) (Num 9) Dispute (Some ''wrong side''))"
    by (simp add: demo_defs)
  from C8_dispute_keeps_score [OF d1 d2, of None]
  have y: "handleDisputeClick ?d None = Some (onUpdateScore ''m1'' (Num 11) (Num 9) Dispute None)"
    by (simp add: demo_defs)
  from x y show ?thesis by blast
qed

text \<open>
  C9. The organizer's resolve action calls \<^verbatim>\<open>onUpdateScore\<close> with the action tag
  \<open>Submit\<close> and no reason, as an ordinary submission does: both handlers build the same
  call from the match id and the two score inputs, and differ in their gate only. Every
  call the resolve button makes is tagged \<open>Submit\<close>.
\<close>

theorem C9_resolve_is_submit:
  "handleResolveClick c =
     (if canResolveSubmit c
      then Some (onUpdateScore (match_id (match (props c))) (parsedS1 c) (parsedS2 c) Submit None)
      else None) \<and>
   handleSubmitClick c' =
     (if canSubmit c'
      then Some (onUpdateScore (match_id (match (props c'))) (parsedS1 c') (parsedS2 c') Submit None)
      else None) \<and>
   (canResolveSubmit c \<and> canSubmit c' \<and> match_id (match (props c)) = match_id (match (props c')) \<and>
    s1 c = s1 c' \<and> s2 c = s2 c' \<longrightarrow>
      handleResolveClick c = handleSubmitClick c' \<and>
      click c r ResolveButton = click c' r' SubmitButton) \<and>
   (\<forall>cb. click c r ResolveButton = Some cb \<longrightarrow> (\<exists>i a b. cb = onUpdateScore i a b Submit None))"
  by (auto simp: handleResolveClick_def handleSubmitClick_def click_resolve click_submit
      parsedS1_def parsedS2_def)

theorem C9_resolve_is_submit_witness:
  "handleResolveClick (demo_card (demo_match disputed (Some (Num 11)) (Some (Num 9))) True ''9'' ''11'')
     = Some (onUpdateScore ''m1'' (Num 9) (Num 11) Submit None) \<and>
   handleSubmitClick (demo_card (demo_match pending None None) False ''9'' ''11'')
     = Some (onUpdateScore ''m1'' (Num 9) (Num 11) Submit None) \<and>
   click (demo_card (demo_match disputed (Some (Num 11)) (Some (Num 9))) True ''9'' ''11'') None ResolveButton
     = click (demo_card (demo_match pending None None) False ''9'' ''11'') None SubmitButton"
proof -
  let ?c = "demo_card (demo_match disputed (Some (Num 11)) (Some (Num 9))) True ''9'' ''11''"
  let ?c' = "demo_card (demo_match pending None None) False ''9'' ''11''"
  have g: "canResolveSubmit ?c" and g': "canSubmit ?c'"
    by (simp_all add: demo_defs gate_defs click_defs parse_defs)
  have i: "match_id (match (props ?c)) = match_id (match (props ?c'))" "s1 ?c = s1 ?c'" "s2 ?c = s2 ?c'"
    by (simp_all add: demo_defs)
  have p: "parsedS1 ?c = Num 9" "parsedS2 ?c = Num 11" "parsedS1 ?c' = Num 9" "parsedS2 ?c' = Num 11"
    by (simp_all add: demo_defs gate_defs click_defs parse_defs)
  have m: "match_id (match (props ?c)) = ''m1''" "match_id (match (props ?c')) = ''m1''"
    by (simp_all add: demo_defs)
  from C9_resolve_is_submit [of ?c ?c' None None] g g' i
  have "handleResolveClick ?c =
          Some (onUpdateScore (match_id (match (props ?c))) (parsedS1 ?c) (parsedS2 ?c) Submit None)"
    and "handleSubmitClick ?c' =
          Some (onUpdateScore (match_id (match (props ?c'))) (parsedS1 ?c') (parsedS2 ?c') Submit None)"
    and "click ?c None ResolveButton = click ?c' None SubmitButton"
    by simp_all
  then show ?thesis unfolding p m by blast
qed

text \<open>
  C2, as stated, fails on the component: with equal scores (\<open>5\<close>, \<open>5\<close>) in a pending
  match, with equal scores in a disputed match shown to an organizer, and with a negative
  score, the click is not rejected; the scores are handed to \<^verbatim>\<open>onUpdateScore\<close>.
\<close>

theorem C2_equal_scores_forwarded:
  "click (demo_card (demo_match pending None None) False ''5'' ''5'') None SubmitButton
     = Some (onUpdateScore ''m1'' (Num 5) (Num 5) Submit None) \<and>
   click (demo_card (demo_match disputed (Some (Num 11)) (Some (Num 9))) True ''7'' ''7'') None ResolveButton
     = Some (onUpdateScore ''m1'' (Num 7) (Num 7) Submit None) \<and>
   click (demo_card (demo_match in_progress None None) False ''-3'' ''4'') None SubmitButton
     = Some (onUpdateScore ''m1'' (Num (- 3)) (Num 4) Submit None)"
  by (simp add: demo_defs gate_defs click_defs parse_defs)

text \<open>
  C2, amended. The gates of the submit path and of the resolve path ask only that both
  score inputs parse to a number (next to the status and organizer conditions). Whenever
  they parse, to any integers \<open>a\<close> and \<open>b\<close>, equal or negative ones included, a click calls
  \<^verbatim>\<open>onUpdateScore\<close> with exactly \<open>a\<close> and \<open>b\<close>.
\<close>

theorem C2_gates_check_presence_only:
  assumes "parsedS1 c = Num a" and "parsedS2 c = Num b"
  shows "(status (match (props c)) = pending \<or> status (match (props c)) = in_progress \<longrightarrow>
            click c r SubmitButton =
              Some (onUpdateScore (match_id (match (props c))) (Num a) (Num b) Submit None)) \<and>
         (status (match (props c)) = disputed \<and> isOrganizer c \<longrightarrow>
            click c r ResolveButton =
              Some (onUpdateScore (match_id (match (props c))) (Num a) (Num b) Submit None))"
proof -
  have f: "scoresFilled c" using assms scoresFilled_iff by blast
  show ?thesis
    using f assms by (simp add: click_submit click_resolve canSubmit_iff canResolveSubmit_def)
qed

theorem C2_gates_check_presence_only_witness:
  "click (demo_card (demo_match pending None None) False ''11'' ''11'') None SubmitButton
     = Some (onUpdateScore ''m1'' (Num 11) (Num 11) Submit None) \<and>
   click (demo_card (demo_match disputed (Some (Num 11)) (Some (Num 9))) True ''-1'' ''-1'') None ResolveButton
     = Some (onUpdateScore ''m1'' (Num (- 1)) (Num (- 1)) Submit None)"
proof -
  let ?c = "demo_card (demo_match pending None None) False ''11'' ''11''"
  let ?d = "demo_card (demo_match disputed (Some (Num 11)) (Some (Num 9))) True ''-1'' ''-1''"
  have c: "parsedS1 ?c = Num 11" "parsedS2 ?c = Num 11"
    by (simp_all add: demo_defs gate_defs click_defs parse_defs)
  have d: "parsedS1 ?d = Num (- 1)" "parsedS2 ?d = Num (- 1)"
    by (simp_all add: demo_defs gate_defs click_defs parse_defs)
  from C2_gates_check_presence_only [OF c, of None]
  have x: "click ?c None SubmitButton = Some (onUpdateScore ''m1'' (Num 11) (Num 11) Submit None)"
    by (simp add: demo_defs)
  from C2_gates_check_presence_only [OF d, of None]
  have y: "click ?d None ResolveButton = Some (onUpdateScore ''m1'' (Num (- 1)) (Num (- 1)) Submit None)"
    by (simp add: demo_defs)
  from x y show ?thesis by blast
qed

section \<open>Properties of CourtAllocation\<close>

lemmas court_demo_defs = demo_court_def demo_court_match_def

lemma assign_in_waitingPanel:
  "onAssignMatchToCourt mid cid \<in> set (waitingPanel courts matches) \<longleftrightarrow>
     (\<exists>m \<in> set matches. \<exists>c \<in> set courts.
        cm_id m = mid \<and> cm_status m = WAITING \<and> court_id c = cid \<and> court_status c = AVAILABLE)"
  by (auto simp: waitingPanel_def assignButtons_def waitingMatches_def)

lemma assign_notin_courtsPanel:
  "onAssignMatchToCourt mid cid \<notin> set (courtsPanel courts)"
  by (auto simp: courtsPanel_def courtButtons_def)

lemma finish_notin_waitingPanel:
  "onFinishMatchOnCourt cid \<notin> set (waitingPanel courts matches)"
  by (auto simp: waitingPanel_def assignButtons_def)

lemma finish_in_courtsPanel:
  "onFinishMatchOnCourt cid \<in> set (courtsPanel courts) \<longleftrightarrow>
     (\<exists>c \<in> set courts. court_id c = cid \<and> court_status c = IN_USE)"
  by (auto simp: courtsPanel_def courtButtons_def)

text \<open>
  C5. \<open>assignToCourt\<close> is valid only if the match is \<open>WAITING\<close> and the court is
  \<open>AVAILABLE\<close>. The component offers the call \<open>onAssignMatchToCourt(matchId, courtId)\<close>
  exactly for the pairs of a match of its props whose status is \<open>WAITING\<close> and a court of
  its props whose status is \<open>AVAILABLE\<close>.
\<close>

theorem C5_assign_only_waiting_available:
  "onAssignMatchToCourt mid cid \<in> set (CourtAllocation courts matches) \<longleftrightarrow>
     (\<exists>m \<in> set matches. \<exists>c \<in> set courts.
        cm_id m = mid \<and> cm_status m = WAITING \<and> court_id c = cid \<and> court_status c = AVAILABLE)"
  by (simp add: CourtAllocation_def assign_in_waitingPanel assign_notin_courtsPanel)

theorem C5_assign_only_waiting_available_witness:
  "onAssignMatchToCourt ''m1'' ''courtA'' \<in>
     set (CourtAllocation
            [demo_court ''courtA'' AVAILABLE None, demo_court ''courtB'' IN_USE (Some ''m3'')]
            [demo_court_match ''m1'' WAITING None, demo_court_match ''m3'' IN_PROGRESS (Some ''courtB'')]) \<and>
   onAssignMatchToCourt ''m1'' ''courtB'' \<notin>
     set (CourtAllocation
            [demo_court ''courtA'' AVAILABLE None, demo_court ''courtB'' IN_USE (Some ''m3'')]
            [demo_court_match ''m1'' WAITING None, demo_court_match ''m3'' IN_PROGRESS (Some ''courtB'')]) \<and>
   onAssignMatchToCourt ''m3'' ''courtA'' \<notin>
     set (CourtAllocation
            [demo_court ''courtA'' AVAILABLE None, demo_court ''courtB'' IN_USE (Some ''m3'')]
            [demo_court_match ''m1'' WAITING None, demo_court_match ''m3'' IN_PROGRESS (Some ''courtB'')])"
  unfolding C5_assign_only_waiting_available by (simp add: court_demo_defs)

text \<open>
  C1, as stated, fails on the component: for a court that is \<open>IN_USE\<close> and whose bound
  match (the one \<open>getMatchForCourt\<close> finds) is still \<open>IN_PROGRESS\<close>, the "Finish Match"
  button is rendered and a click calls \<open>onFinishMatchOnCourt\<close>.
\<close>

theorem C1_finish_offered_while_in_progress:
  "onFinishMatchOnCourt ''courtA'' \<in>
     set (CourtAllocation [demo_court ''courtA'' IN_USE (Some ''m1'')]
                          [demo_court_match ''m1'' IN_PROGRESS (Some ''courtA'')]) \<and>
   map_option cm_status
     (getMatchForCourt [demo_court_match ''m1'' IN_PROGRESS (Some ''courtA'')]
                       (demo_court ''courtA'' IN_USE (Some ''m1''))) = Some IN_PROGRESS"
  by (simp add: CourtAllocation_def waitingPanel_def waitingMatches_def courtsPanel_def
      courtButtons_def getMatchForCourt_def court_demo_defs)

text \<open>
  C1, amended. The component offers the finish action for a court exactly when the
  court's status is \<open>IN_USE\<close>; the status of the bound match plays no part in it.
  \<open>finishOnCourt\<close> of the specification succeeds only for a court that is \<open>IN_USE\<close> and
  whose bound match is \<open>completed\<close>; called while the bound match is \<open>in_progress\<close> it
  fails, and the court stays \<open>IN_USE\<close>.
\<close>

theorem C1_finish_gate:
  "(onFinishMatchOnCourt cid \<in> set (CourtAllocation courts matches) \<longleftrightarrow>
      (\<exists>c \<in> set courts. court_id c = cid \<and> court_status c = IN_USE)) \<and>
   (succeeded (finishOnCourt c m) \<longleftrightarrow>
      court_status c = IN_USE \<and> currentMatchId c = Some (m_id m) \<and> m_status m = completed) \<and>
   (court_status c = IN_USE \<and> m_status m = in_progress \<longrightarrow>
      \<not> succeeded (finishOnCourt c m) \<and>
      entities_after (m, c) (finishOnCourt c m) = (m, c) \<and>
      court_status (snd (entities_after (m, c) (finishOnCourt c m))) = IN_USE)"
proof -
  have a: "onFinishMatchOnCourt cid \<in> set (CourtAllocation courts matches) \<longleftrightarrow>
      (\<exists>c \<in> set courts. court_id c = cid \<and> court_status c = IN_USE)"
    by (simp add: CourtAllocation_def finish_notin_waitingPanel finish_in_courtsPanel)
  have b: "succeeded (finishOnCourt c m) \<longleftrightarrow>
      court_status c = IN_USE \<and> currentMatchId c = Some (m_id m) \<and> m_status m = completed"
    by (simp add: finishOnCourt_def)
  have d: "court_status c = IN_USE \<and> m_status m = in_progress \<longrightarrow>
      \<not> succeeded (finishOnCourt c m) \<and>
      entities_after (m, c) (finishOnCourt c m) = (m, c) \<and>
      court_status (snd (entities_after (m, c) (finishOnCourt c m))) = IN_USE"
    by (simp add: finishOnCourt_def)
  from a b d show ?thesis by blast
qed

theorem C1_finish_gate_witness:
  "onFinishMatchOnCourt ''courtA'' \<in>
     set (CourtAllocation [demo_court ''courtA'' IN_USE (Some ''m1'')]
                          [demo_court_match ''m1'' COMPLETED (Some ''courtA'')]) \<and>
   onFinishMatchOnCourt ''courtA'' \<notin>
     set (CourtAllocation [demo_court ''courtA'' ASSIGNED (Some ''m1'')]
                          [demo_court_match ''m1'' MATCH_ASSIGNED (Some ''courtA'')]) \<and>
   \<not> succeeded (finishOnCourt (demo_court ''courtA'' IN_USE (Some ''m1'')) (demo_Match in_progress None)) \<and>
   court_status (snd (entities_after (demo_Match in_progress None, demo_court ''courtA'' IN_USE (Some ''m1''))
      (finishOnCourt (demo_court ''courtA'' IN_USE (Some ''m1'')) (demo_Match in_progress None)))) = IN_USE \<and>
   succeeded (finishOnCourt (demo_court ''courtA'' IN_USE (Some ''m1'')) (demo_Match completed (Some ''p1'')))"
  using C1_finish_gate [of "''courtA''" "[demo_court ''courtA'' IN_USE (Some ''m1'')]"
      "[demo_court_match ''m1'' COMPLETED (Some ''courtA'')]"
      "demo_court ''courtA'' IN_USE (Some ''m1'')" "demo_Match in_progress None"]
    C1_finish_gate [of "''courtA''" "[demo_court ''courtA'' ASSIGNED (Some ''m1'')]"
      "[demo_court_match ''m1'' MATCH_ASSIGNED (Some ''courtA'')]"
      "demo_court ''courtA'' IN_USE (Some ''m1'')" "demo_Match completed (Some ''p1'')"]
  by (simp add: court_demo_defs demo_Match_def)

section \<open>Properties of the court writes\<close>

lemma updateCourt_existing:
  assumes "courts courtId = Some d"
  shows "updateCourt now courts courtId data =
           Inr (courts(courtId \<mapsto> d ++ (data(''updatedAt'' \<mapsto> FNumber now))))"
  using assms by (simp add: updateCourt_def updateDoc_def)

lemma two_updates_existing:
  assumes "courts courtId = Some d"
  shows "two_updates courts courtId now1 data1 now2 data2 =
     (Inr (courts(courtId \<mapsto> d ++ (data1(''updatedAt'' \<mapsto> FNumber now1)))),
      Inr (courts(courtId \<mapsto>
             (d ++ (data1(''updatedAt'' \<mapsto> FNumber now1))) ++ (data2(''updatedAt'' \<mapsto> FNumber now2)))))"
proof -
  let ?d1 = "d ++ (data1(''updatedAt'' \<mapsto> FNumber now1))"
  let ?c1 = "courts(courtId \<mapsto> ?d1)"
  have r1: "updateCourt now1 courts courtId data1 = Inr ?c1"
    using assms by (simp add: updateCourt_def updateDoc_def)
  have r2: "updateCourt now2 ?c1 courtId data2 =
      Inr (?c1(courtId \<mapsto> ?d1 ++ (data2(''updatedAt'' \<mapsto> FNumber now2))))"
    by (simp add: updateCourt_def updateDoc_def)
  show ?thesis
    unfolding two_updates_def Let_def r1 sum.case r2 by simp
qed

text \<open>
  C4, as stated, fails on \<open>updateCourt\<close>: two writes that assign the matches \<open>m1\<close> and
  \<open>m2\<close> to the same available court both succeed, in either order; neither reports a
  conflict, and the second overwrites the \<open>currentMatchId\<close> that the first one set.
\<close>

theorem C4_both_assign_writes_succeed:
  "succeeded (fst (two_updates demo_courts ''courtA'' 1 (assignData ''m1'') 2 (assignData ''m2''))) \<and>
   succeeded (snd (two_updates demo_courts ''courtA'' 1 (assignData ''m1'') 2 (assignData ''m2''))) \<and>
   succeeded (fst (two_updates demo_courts ''courtA'' 1 (assignData ''m2'') 2 (assignData ''m1''))) \<and>
   succeeded (snd (two_updates demo_courts ''courtA'' 1 (assignData ''m2'') 2 (assignData ''m1''))) \<and>
   field_after (fst (two_updates demo_courts ''courtA'' 1 (assignData ''m1'') 2 (assignData ''m2'')))
     ''courtA'' ''currentMatchId'' = Some (FString ''m1'') \<and>
   field_after (snd (two_updates demo_courts ''courtA'' 1 (assignData ''m1'') 2 (assignData ''m2'')))
     ''courtA'' ''currentMatchId'' = Some (FString ''m2'') \<and>
   onAssignMatchToCourt ''m1'' ''courtA'' \<in>
     set (CourtAllocation [demo_court ''courtA'' AVAILABLE None]
            [demo_court_match ''m1'' WAITING None, demo_court_match ''m2'' WAITING None]) \<and>
   onAssignMatchToCourt ''m2'' ''courtA'' \<in>
     set (CourtAllocation [demo_court ''courtA'' AVAILABLE None]
            [demo_court_match ''m1'' WAITING None, demo_court_match ''m2'' WAITING None])"
  by (simp add: two_updates_def updateCourt_def updateDoc_def demo_courts_def Let_def
      field_after_def assignData_def CourtAllocation_def assign_in_waitingPanel court_demo_defs)

text \<open>
  C4, amended. \<open>updateCourt\<close> is an unconditional write: on an existing court document
  two writes, whatever they hold, both succeed, and the court ends with the fields of the
  write committed last (the fields that only the first write names are kept). After two
  assigning writes the court is \<open>ASSIGNED\<close> and its one \<open>currentMatchId\<close> is the match of
  the second write.
\<close>

theorem C4_last_write_wins:
  assumes "courts courtId = Some d"
  shows "succeeded (fst (two_updates courts courtId now1 data1 now2 data2)) \<and>
         succeeded (snd (two_updates courts courtId now1 data1 now2 data2)) \<and>
         (\<forall>f v. data2 f = Some v \<and> f \<noteq> ''updatedAt'' \<longrightarrow>
            field_after (snd (two_updates courts courtId now1 data1 now2 data2)) courtId f = Some v) \<and>
         (\<forall>f. data2 f = None \<and> f \<noteq> ''updatedAt'' \<longrightarrow>
            field_after (snd (two_updates courts courtId now1 data1 now2 data2)) courtId f =
            field_after (fst (two_updates courts courtId now1 data1 now2 data2)) courtId f) \<and>
         field_after (snd (two_updates courts courtId now1 data1 now2 data2)) courtId ''updatedAt'' =
           Some (FNumber now2) \<and>
         field_after (snd (two_updates courts courtId now1 (assignData m1) now2 (assignData m2)))
           courtId ''currentMatchId'' = Some (FString m2) \<and>
         field_after (snd (two_updates courts courtId now1 (assignData m1) now2 (assignData m2)))
           courtId ''status'' = Some (FString ''ASSIGNED'') \<and>
         (ma \<in> set matches \<and> cm_status ma = WAITING \<and> mb \<in> set matches \<and> cm_status mb = WAITING \<and>
          c \<in> set cs \<and> court_status c = AVAILABLE \<longrightarrow>
            onAssignMatchToCourt (cm_id ma) (court_id c) \<in> set (CourtAllocation cs matches) \<and>
            onAssignMatchToCourt (cm_id mb) (court_id c) \<in> set (CourtAllocation cs matches))"
proof -
  note t = two_updates_existing [of courts courtId d, OF assms]
  have p: "ma \<in> set matches \<and> cm_status ma = WAITING \<and> mb \<in> set matches \<and> cm_status mb = WAITING \<and>
          c \<in> set cs \<and> court_status c = AVAILABLE \<longrightarrow>
            onAssignMatchToCourt (cm_id ma) (court_id c) \<in> set (CourtAllocation cs matches) \<and>
            onAssignMatchToCourt (cm_id mb) (court_id c) \<in> set (CourtAllocation cs matches)"
    unfolding CourtAllocation_def set_append Un_iff assign_in_waitingPanel by blast
  have s: "succeeded (fst (two_updates courts courtId now1 data1 now2 data2)) \<and>
         succeeded (snd (two_updates courts courtId now1 data1 now2 data2))"
    by (simp add: t)
  have w: "\<forall>f v. data2 f = Some v \<and> f \<noteq> ''updatedAt'' \<longrightarrow>
            field_after (snd (two_updates courts courtId now1 data1 now2 data2)) courtId f = Some v"
    by (simp add: t field_after_def map_add_def)
  have k: "\<forall>f. data2 f = None \<and> f \<noteq> ''updatedAt'' \<longrightarrow>
            field_after (snd (two_updates courts courtId now1 data1 now2 data2)) courtId f =
            field_after (fst (two_updates courts courtId now1 data1 now2 data2)) courtId f"
    by (simp add: t field_after_def map_add_def)
  have u: "field_after (snd (two_updates courts courtId now1 data1 now2 data2)) courtId ''updatedAt'' =
           Some (FNumber now2)"
    by (simp add: t field_after_def)
  have a: "field_after (snd (two_updates courts courtId now1 (assignData m1) now2 (assignData m2)))
           courtId ''currentMatchId'' = Some (FString m2)"
    by (simp add: t field_after_def assignData_def map_add_def)
  have b: "field_after (snd (two_updates courts courtId now1 (assignData m1) now2 (assignData m2)))
           courtId ''status'' = Some (FString ''ASSIGNED'')"
    by (simp add: t field_after_def assignData_def map_add_def)
  from s w k u a b p show ?thesis by blast
qed

theorem C4_last_write_wins_witness:
  "succeeded (fst (two_updates demo_courts ''courtA'' 1 (assignData ''m1'') 2 (assignData ''m2''))) \<and>
   succeeded (snd (two_updates demo_courts ''courtA'' 1 (assignData ''m1'') 2 (assignData ''m2''))) \<and>
   field_after (snd (two_updates demo_courts ''courtA'' 1 (assignData ''m1'') 2 (assignData ''m2'')))
     ''courtA'' ''currentMatchId'' = Some (FString ''m2'') \<and>
   field_after (snd (two_updates demo_courts ''courtA'' 1 (assignData ''m1'') 2 (assignData ''m2'')))
     ''courtA'' ''id'' = Some (FString ''courtA'') \<and>
   onAssignMatchToCourt ''m1'' ''courtA'' \<in>
     set (CourtAllocation [demo_court ''courtA'' AVAILABLE None]
            [demo_court_match ''m1'' WAITING None, demo_court_match ''m2'' WAITING None]) \<and>
   onAssignMatchToCourt ''m2'' ''courtA'' \<in>
     set (CourtAllocation [demo_court ''courtA'' AVAILABLE None]
            [demo_court_match ''m1'' WAITING None, demo_court_match ''m2'' WAITING None])"
proof -
  let ?ma = "demo_court_match ''m1'' WAITING None"
  let ?mb = "demo_court_match ''m2'' WAITING None"
  let ?c = "demo_court ''courtA'' AVAILABLE None"
  have e: "demo_courts ''courtA'' =
      Some [''id'' \<mapsto> FString ''courtA'', ''status'' \<mapsto> FString ''AVAILABLE'']"
    by (simp add: demo_courts_def)
  have n: "assignData ''m2'' ''id'' = None \<and> ''id'' \<noteq> ''updatedAt''"
    by (simp add: assignData_def)
  have f: "field_after (fst (two_updates demo_courts ''courtA'' 1 (assignData ''m1'') 2 (assignData ''m2'')))
     ''courtA'' ''id'' = Some (FString ''courtA'')"
    by (simp add: two_updates_def updateCourt_def updateDoc_def demo_courts_def Let_def
      field_after_def assignData_def)
  have h: "?ma \<in> set [?ma, ?mb] \<and> cm_status ?ma = WAITING \<and> ?mb \<in> set [?ma, ?mb] \<and>
      cm_status ?mb = WAITING \<and> ?c \<in> set [?c] \<and> court_status ?c = AVAILABLE"
    by (simp add: court_demo_defs)
  have i: "cm_id ?ma = ''m1''" "cm_id ?mb = ''m2''" "court_id ?c = ''courtA''"
    by (simp_all add: court_demo_defs)
  from C4_last_write_wins [where courts = demo_courts and courtId = "''courtA''"
      and ?now1.0 = 1 and ?data1.0 = "assignData ''m1''" and ?now2.0 = 2
      and ?data2.0 = "assignData ''m2''" and ?m1.0 = "''m1''" and ?m2.0 = "''m2''"
      and ma = ?ma and mb = ?mb and matches = "[?ma, ?mb]" and c = ?c and cs = "[?c]", OF e]
  have t: "succeeded (fst (two_updates demo_courts ''courtA'' 1 (assignData ''m1'') 2 (assignData ''m2''))) \<and>
      succeeded (snd (two_updates demo_courts ''courtA'' 1 (assignData ''m1'') 2 (assignData ''m2''))) \<and>
      field_after (snd (two_updates demo_courts ''courtA'' 1 (assignData ''m1'') 2 (assignData ''m2'')))
        ''courtA'' ''currentMatchId'' = Some (FString ''m2'')"
    and k: "\<forall>f. assignData ''m2'' f = None \<and> f \<noteq> ''updatedAt'' \<longrightarrow>
      field_after (snd (two_updates demo_courts ''courtA'' 1 (assignData ''m1'') 2 (assignData ''m2'')))
        ''courtA'' f =
      field_after (fst (two_updates demo_courts ''courtA'' 1 (assignData ''m1'') 2 (assignData ''m2'')))
        ''courtA'' f"
    and b: "onAssignMatchToCourt (cm_id ?ma) (court_id ?c) \<in> set (CourtAllocation [?c] [?ma, ?mb]) \<and>
      onAssignMatchToCourt (cm_id ?mb) (court_id ?c) \<in> set (CourtAllocation [?c] [?ma, ?mb])"
    using h by blast+
  from k n f have g: "field_after
      (snd (two_updates demo_courts ''courtA'' 1 (assignData ''m1'') 2 (assignData ''m2'')))
      ''courtA'' ''id'' = Some (FString ''courtA'')"
    by simp
  from t g b show ?thesis unfolding i by blast
qed

section \<open>Properties of confirmation and dispute\<close>

lemma confirmScore_succeeds_iff:
  "succeeded (confirmScore m a) \<longleftrightarrow>
     m_status m = pending_confirmation \<and> submittedBy m \<noteq> Some (actorId a) \<and>
     (participant a \<or> organizer a)"
  by (simp add: confirmScore_def may_ratify_def)

lemma disputeScore_succeeds_iff:
  "succeeded (disputeScore m a reason) \<longleftrightarrow>
     m_status m = pending_confirmation \<and> submittedBy m \<noteq> Some (actorId a) \<and>
     (participant a \<or> organizer a)"
  by (simp add: disputeScore_def may_ratify_def)

lemma no_flag_no_ratify_buttons:
  assumes "props_canCurrentUserConfirm (props c) = None"
    and "canCurrentUserConfirm (match (props c)) = Some False"
  shows "click c r ConfirmButton = None \<and> click c r DisputeButton = None"
  using assms by (simp add: click_def canConfirm_def)

text \<open>
  C3. For a match in \<open>pending_confirmation\<close>, \<open>confirmScore\<close> and \<open>disputeScore\<close> fail
  (\<open>Unauthorized\<close>, the match unchanged) when the acting user is the one who submitted
  the score. They succeed exactly for a participant or an organizer other than the
  submitter, from \<open>pending_confirmation\<close>. A card whose \<open>canCurrentUserConfirm\<close> flag is
  computed for the submitter offers neither the confirm nor the dispute action.
\<close>

theorem C3_submitter_cannot_ratify:
  "(succeeded (confirmScore m a) \<longleftrightarrow>
      m_status m = pending_confirmation \<and> submittedBy m \<noteq> Some (actorId a) \<and>
      (participant a \<or> organizer a)) \<and>
   (succeeded (disputeScore m a reason) \<longleftrightarrow>
      m_status m = pending_confirmation \<and> submittedBy m \<noteq> Some (actorId a) \<and>
      (participant a \<or> organizer a)) \<and>
   (m_status m = pending_confirmation \<and> submittedBy m = Some (actorId a) \<longrightarrow>
      confirmScore m a = Inl Unauthorized \<and>
      disputeScore m a reason = Inl Unauthorized \<and>
      entities_after m (confirmScore m a) = m \<and>
      entities_after m (disputeScore m a reason) = m) \<and>
   (submittedBy m = Some (actorId a) \<and>
    props_canCurrentUserConfirm (props c) = None \<and>
    canCurrentUserConfirm (match (props c)) = Some (canCurrentUserConfirm_for m a) \<longrightarrow>
      click c r ConfirmButton = None \<and> click c r DisputeButton = None)"
proof -
  have f: "m_status m = pending_confirmation \<and> submittedBy m = Some (actorId a) \<longrightarrow>
      confirmScore m a = Inl Unauthorized \<and>
      disputeScore m a reason = Inl Unauthorized \<and>
      entities_after m (confirmScore m a) = m \<and>
      entities_after m (disputeScore m a reason) = m"
    by (simp add: confirmScore_def disputeScore_def may_ratify_def)
  have b: "submittedBy m = Some (actorId a) \<and>
    props_canCurrentUserConfirm (props c) = None \<and>
    canCurrentUserConfirm (match (props c)) = Some (canCurrentUserConfirm_for m a) \<longrightarrow>
      click c r ConfirmButton = None \<and> click c r DisputeButton = None"
  proof
    assume h: "submittedBy m = Some (actorId a) \<and>
      props_canCurrentUserConfirm (props c) = None \<and>
      canCurrentUserConfirm (match (props c)) = Some (canCurrentUserConfirm_for m a)"
    then have "\<not> canCurrentUserConfirm_for m a"
      by (simp add: canCurrentUserConfirm_for_def may_ratify_def)
    with h have "canCurrentUserConfirm (match (props c)) = Some False" by simp
    with h show "click c r ConfirmButton = None \<and> click c r DisputeButton = None"
      using no_flag_no_ratify_buttons by blast
  qed
  from confirmScore_succeeds_iff [of m a] disputeScore_succeeds_iff [of m a reason] f b
  show ?thesis by blast
qed

theorem C3_submitter_cannot_ratify_witness:
  "confirmScore (demo_Match pending_confirmation (Some ''p1'')) (demo_actor ''p1'' True False)
     = Inl Unauthorized \<and>
   disputeScore (demo_Match pending_confirmation (Some ''p1'')) (demo_actor ''p1'' True False)
      (Some ''wrong side'') = Inl Unauthorized \<and>
   succeeded (confirmScore (demo_Match pending_confirmation (Some ''p1'')) (demo_actor ''p2'' True False)) \<and>
   succeeded (disputeScore (demo_Match pending_confirmation (Some ''p1'')) (demo_actor ''org'' False True) None) \<and>
   click (demo_card ((demo_match pending_confirmation (Some (Num 11)) (Some (Num 9)))
            \<lparr>canCurrentUserConfirm := Some (canCurrentUserConfirm_for
                 (demo_Match pending_confirmation (Some ''p1'')) (demo_actor ''p1'' True False))\<rparr>)
          False [] []) None ConfirmButton = None"
proof -
  let ?m = "demo_Match pending_confirmation (Some ''p1'')"
  let ?p1 = "demo_actor ''p1'' True False"
  let ?c = "demo_card ((demo_match pending_confirmation (Some (Num 11)) (Some (Num 9)))
            \<lparr>canCurrentUserConfirm := Some (canCurrentUserConfirm_for ?m ?p1)\<rparr>) False [] []"
  have h: "m_status ?m = pending_confirmation \<and> submittedBy ?m = Some (actorId ?p1)"
    by (simp add: demo_Match_def demo_actor_def)
  have k: "submittedBy ?m = Some (actorId ?p1) \<and>
    props_canCurrentUserConfirm (props ?c) = None \<and>
    canCurrentUserConfirm (match (props ?c)) = Some (canCurrentUserConfirm_for ?m ?p1)"
    by (simp add: demo_Match_def demo_actor_def demo_defs)
  from C3_submitter_cannot_ratify [of ?m ?p1 "Some ''wrong side''" ?c None] h k
  have x: "confirmScore ?m ?p1 = Inl Unauthorized"
    and y: "disputeScore ?m ?p1 (Some ''wrong side'') = Inl Unauthorized"
    and z: "click ?c None ConfirmButton = None"
    by blast+
  have u: "succeeded (confirmScore ?m (demo_actor ''p2'' True False))"
    using C3_submitter_cannot_ratify [of ?m "demo_actor ''p2'' True False" None ?c None]
    by (simp add: demo_Match_def demo_actor_def)
  have v: "succeeded (disputeScore ?m (demo_actor ''org'' False True) None)"
    using C3_submitter_cannot_ratify [of ?m "demo_actor ''org'' False True" None ?c None]
    by (simp add: demo_Match_def demo_actor_def)
  from x y z u v show ?thesis by blast
qed

end
